theory Spec2Isabelle
  imports Complex_Main
begin

section \<open>The packet processor of the network dashboard\<close>

text \<open>
  A shallow embedding of the class \<^verbatim>\<open>PacketProcessor\<close> of \<^verbatim>\<open>dashboard.py\<close>. One call of a
  method is a function from the processor's state to its new state. The two output
  channels the class writes to, \<^verbatim>\<open>logger.error\<close> and \<^verbatim>\<open>st.warning\<close>, are lists of
  messages carried in the state. What a call reads from outside (the clock, the geocoder)
  is an argument. The body of \<^verbatim>\<open>process_packet\<close> runs under \<^verbatim>\<open>self.lock\<close>, which is
  released on every exit; one call at a time is modelled, so the lock does not appear.
\<close>

subsection \<open>Exceptions and results\<close>

text \<open>
  Both handlers of \<^verbatim>\<open>process_packet\<close> are \<^verbatim>\<open>except Exception as e\<close> clauses that log
  \<^verbatim>\<open>str(e)\<close>. Two things about a raised exception therefore matter: whether it is an
  instance of \<^verbatim>\<open>Exception\<close>, and what \<^verbatim>\<open>str\<close> does with it.
  \<^item> \<open>Exception msg\<close> is an instance of \<^verbatim>\<open>Exception\<close> whose text is \<open>msg\<close>.
  \<^item> \<open>Unprintable ex\<close> is an instance of \<^verbatim>\<open>Exception\<close> whose \<^verbatim>\<open>__str__\<close> raises \<open>ex\<close>.
  \<^item> \<open>BaseOnly name\<close> is an instance of \<^verbatim>\<open>BaseException\<close> that is not an instance of
    \<^verbatim>\<open>Exception\<close>: \<^verbatim>\<open>KeyboardInterrupt\<close>, \<^verbatim>\<open>SystemExit\<close>, \<^verbatim>\<open>GeneratorExit\<close>.
  A call either returns a value or raises.
\<close>

datatype exn = Exception string | Unprintable exn | BaseOnly string

datatype ('a, 'x) outcome = Returns 'a | Raises 'x

type_synonym 'a result = "('a, exn) outcome"

fun is_Exception :: "exn \<Rightarrow> bool" where
  "is_Exception (Exception msg) = True"
| "is_Exception (Unprintable ex) = True"
| "is_Exception (BaseOnly name) = False"

fun str_exn :: "exn \<Rightarrow> string result" where
  "str_exn (Exception msg) = Returns msg"
| "str_exn (Unprintable ex) = Raises ex"
| "str_exn (BaseOnly name) = Returns name"

text \<open>
  The geocoder is the \<^verbatim>\<open>Nominatim\<close> client the constructor makes. What it raises are the
  errors of its library, instances of \<^verbatim>\<open>Exception\<close> that carry a message.
\<close>

datatype geopy_error = GeopyError string

fun str_geopy :: "geopy_error \<Rightarrow> string" where
  "str_geopy (GeopyError msg) = msg"

subsection \<open>Decimal text of an integer\<close>

text \<open>
  The f-string \<^verbatim>\<open>f'OTHER({protocol_num})'\<close> formats an \<^verbatim>\<open>int\<close> as \<^verbatim>\<open>str\<close> does: decimal
  digits, most significant first, no leading zero, a minus sign before a negative number.
\<close>

definition digit_char :: "nat \<Rightarrow> char" where
  "digit_char d = ''0123456789'' ! d"

fun str_nat :: "nat \<Rightarrow> string" where
  "str_nat n = (if n < 10 then [digit_char n] else str_nat (n div 10) @ [digit_char (n mod 10)])"

declare str_nat.simps [simp del]

definition str_int :: "int \<Rightarrow> string" where
  "str_int i = (if i < 0 then CHR ''-'' # str_nat (nat (- i)) else str_nat (nat i))"

text \<open>Reading decimal digits back, used to show that \<open>str_int\<close> loses nothing.\<close>

definition digit_val :: "char \<Rightarrow> nat" where
  "digit_val c = of_char c - 48"

definition nat_of_str :: "string \<Rightarrow> nat" where
  "nat_of_str cs = foldl (\<lambda>a c. 10 * a + digit_val c) 0 cs"

subsection \<open>Captured packets\<close>

text \<open>
  A captured packet is seen through the four things \<^verbatim>\<open>process_packet\<close> asks of it:
  \<^verbatim>\<open>IP in packet\<close> and \<^verbatim>\<open>packet[IP]\<close> (the first IP layer, if any), the same for TCP and
  UDP, and \<^verbatim>\<open>len(packet)\<close>.
\<close>

record ip_layer =
  src :: string
  dst :: string
  proto :: int

record tcp_layer =
  tcp_sport :: int
  tcp_dport :: int
  flags :: int

record udp_layer =
  udp_sport :: int
  udp_dport :: int

record packet =
  IP :: "ip_layer option"
  TCP :: "tcp_layer option"
  UDP :: "udp_layer option"
  len :: nat

subsection \<open>Packet records\<close>

text \<open>
  \<^verbatim>\<open>packet_info\<close> is a dictionary with six keys that are always set and five that may be
  added later; a key that is not in the dictionary is \<open>None\<close> here. Times are counted in
  microseconds, \<^verbatim>\<open>time_relative\<close> in seconds. The key \<^verbatim>\<open>'size'\<close> is the field
  \<open>pkt_size\<close>.
\<close>

record packet_info =
  timestamp :: int
  source :: string
  destination :: string
  protocol :: string
  pkt_size :: nat
  time_relative :: real
  src_port :: "int option"
  dst_port :: "int option"
  tcp_flags :: "int option"
  latitude :: "real option"
  longitude :: "real option"

subsection \<open>The processor's state and its surroundings\<close>

type_synonym condition = "packet_info \<Rightarrow> bool result"

type_synonym location = "real \<times> real"

record processor =
  protocol_map :: "int \<rightharpoonup> string"
  packet_data :: "packet_info list"
  start_time :: int
  packet_count :: int
  alerts :: "(condition \<times> string) list"
  logged :: "string list"
  st_warnings :: "string list"

text \<open>
  What one call of \<^verbatim>\<open>process_packet\<close> reads from outside: the two readings of
  \<^verbatim>\<open>datetime.now()\<close>, in the order the dictionary display takes them, and the answer of
  \<^verbatim>\<open>self.geolocator.geocode\<close>: a place with its latitude and longitude, nothing, or an
  error of the geocoder.
\<close>

record env =
  now1 :: int
  now2 :: int
  geocode :: "string \<Rightarrow> (location option, geopy_error) outcome"

subsection \<open>The methods\<close>

definition PacketProcessor_init :: "int \<Rightarrow> processor" where
  "PacketProcessor_init now =
     \<lparr>protocol_map = [1 \<mapsto> ''ICMP'', 6 \<mapsto> ''TCP'', 17 \<mapsto> ''UDP''],
      packet_data = [],
      start_time = now,
      packet_count = 0,
      alerts = [],
      logged = [],
      st_warnings = []\<rparr>"

definition get_protocol_name :: "processor \<Rightarrow> int \<Rightarrow> string" where
  "get_protocol_name self protocol_num =
     (case protocol_map self protocol_num of
        Some name \<Rightarrow> name
      | None \<Rightarrow> ''OTHER('' @ str_int protocol_num @ '')'')"

definition add_alert :: "processor \<Rightarrow> condition \<Rightarrow> string \<Rightarrow> processor" where
  "add_alert self condition message = self\<lparr>alerts := alerts self @ [(condition, message)]\<rparr>"

text \<open>
  The loop of \<^verbatim>\<open>check_alerts\<close> over \<^verbatim>\<open>self.alerts\<close>. There is no handler inside it: a
  condition that raises ends the loop, and the warnings shown before stay shown.
\<close>

fun check_alerts_loop ::
  "(condition \<times> string) list \<Rightarrow> packet_info \<Rightarrow> processor \<Rightarrow> unit result \<times> processor" where
  "check_alerts_loop [] packet_info self = (Returns (), self)"
| "check_alerts_loop ((condition, message) # rest) packet_info self =
     (case condition packet_info of
        Raises e \<Rightarrow> (Raises e, self)
      | Returns holds \<Rightarrow>
          check_alerts_loop rest packet_info
            (if holds then self\<lparr>st_warnings := st_warnings self @ [''Alert: '' @ message]\<rparr>
             else self))"

definition check_alerts :: "processor \<Rightarrow> packet_info \<Rightarrow> unit result \<times> processor" where
  "check_alerts self packet_info = check_alerts_loop (alerts self) packet_info self"

text \<open>Lines 60 to 67: the dictionary display.\<close>

definition new_packet_info :: "env \<Rightarrow> processor \<Rightarrow> packet \<Rightarrow> ip_layer \<Rightarrow> packet_info" where
  "new_packet_info e self packet ip =
     \<lparr>timestamp = now1 e,
      source = src ip,
      destination = dst ip,
      protocol = get_protocol_name self (proto ip),
      pkt_size = len packet,
      time_relative = real_of_int (now2 e - start_time self) / 1000000,
      src_port = None,
      dst_port = None,
      tcp_flags = None,
      latitude = None,
      longitude = None\<rparr>"

text \<open>Lines 69 to 82: the fields of the transport layer, TCP before UDP.\<close>

definition add_transport :: "packet \<Rightarrow> packet_info \<Rightarrow> packet_info" where
  "add_transport packet packet_info =
     (case TCP packet of
        Some t \<Rightarrow>
          packet_info\<lparr>src_port := Some (tcp_sport t),
                      dst_port := Some (tcp_dport t),
                      tcp_flags := Some (flags t)\<rparr>
      | None \<Rightarrow>
          (case UDP packet of
             Some u \<Rightarrow>
               packet_info\<lparr>src_port := Some (udp_sport u),
                           dst_port := Some (udp_dport u)\<rparr>
           | None \<Rightarrow> packet_info))"

text \<open>
  Lines 84 to 91: the geographical mapping, with its own handler. Every error of the
  geocoder is an instance of \<^verbatim>\<open>Exception\<close> with a text, so the handler catches it and logs
  it.
\<close>

definition geolocate ::
  "env \<Rightarrow> ip_layer \<Rightarrow> packet_info \<Rightarrow> processor \<Rightarrow> packet_info \<times> processor" where
  "geolocate e ip packet_info self =
     (case geocode e (src ip) of
        Returns (Some (lat, lon)) \<Rightarrow>
          (packet_info\<lparr>latitude := Some lat, longitude := Some lon\<rparr>, self)
      | Returns None \<Rightarrow> (packet_info, self)
      | Raises ex \<Rightarrow>
          (packet_info,
           self\<lparr>logged := logged self @ [''Error in geolocation: '' @ str_geopy ex]\<rparr>))"

text \<open>
  Lines 96 to 101: the record is appended, the counter goes up, and one record leaves
  the front when there are more than 10000.
\<close>

definition append_record :: "processor \<Rightarrow> packet_info \<Rightarrow> processor" where
  "append_record self packet_info =
     (let self1 = self\<lparr>packet_data := packet_data self @ [packet_info]\<rparr>;
          self2 = self1\<lparr>packet_count := packet_count self1 + 1\<rparr>
      in if length (packet_data self2) > 10000
         then self2\<lparr>packet_data := tl (packet_data self2)\<rparr>
         else self2)"

text \<open>
  The state and the record as they stand when the alerts are checked (lines 60 to 91).
\<close>

definition geolocated_state :: "env \<Rightarrow> processor \<Rightarrow> packet \<Rightarrow> ip_layer \<Rightarrow> processor" where
  "geolocated_state e self packet ip =
     snd (geolocate e ip (add_transport packet (new_packet_info e self packet ip)) self)"


definition built_info :: "env \<Rightarrow> processor \<Rightarrow> packet \<Rightarrow> ip_layer \<Rightarrow> packet_info" where
  "built_info e self packet ip =
     fst (geolocate e ip (add_transport packet (new_packet_info e self packet ip)) self)"

text \<open>Lines 58 to 101: the body of the outer \<^verbatim>\<open>try\<close>.\<close>

definition process_packet_body :: "env \<Rightarrow> processor \<Rightarrow> packet \<Rightarrow> unit result \<times> processor" where
  "process_packet_body e self packet =
     (case IP packet of
        None \<Rightarrow> (Returns (), self)
      | Some ip \<Rightarrow>
          (let packet_info = add_transport packet (new_packet_info e self packet ip);
               (packet_info, self) = geolocate e ip packet_info self;
               (r, self) = check_alerts self packet_info
           in case r of
                Raises ex \<Rightarrow> (Raises ex, self)
              | Returns _ \<Rightarrow> (Returns (), append_record self packet_info)))"

text \<open>
  Lines 103 and 104: the clause \<^verbatim>\<open>except Exception as e\<close>, applied to whatever the body of
  the \<^verbatim>\<open>try\<close> did. An exception that is not an instance of \<^verbatim>\<open>Exception\<close> passes through.
  One that is has its text taken for the log message; when \<^verbatim>\<open>str(e)\<close> raises, nothing is
  logged and that exception leaves the handler.
\<close>

definition except_log :: "unit result \<times> processor \<Rightarrow> unit result \<times> processor" where
  "except_log body =
     (case body of
        (Returns u, self') \<Rightarrow> (Returns u, self')
      | (Raises ex, self') \<Rightarrow>
          (if is_Exception ex
           then (case str_exn ex of
                   Returns msg \<Rightarrow>
                     (Returns (),
                      self'\<lparr>logged := logged self' @ [''Error processing packet: '' @ msg]\<rparr>)
                 | Raises ex' \<Rightarrow> (Raises ex', self'))
           else (Raises ex, self')))"

text \<open>Lines 55 to 104: the whole method.\<close>

definition process_packet :: "env \<Rightarrow> processor \<Rightarrow> packet \<Rightarrow> unit result \<times> processor" where
  "process_packet e self packet = except_log (process_packet_body e self packet)"

text \<open>The rule \<^verbatim>\<open>main\<close> registers: a TCP packet of more than 1000 bytes.\<close>

definition large_tcp :: condition where
  "large_tcp pkt = Returns (protocol pkt = ''TCP'' \<and> pkt_size pkt > 1000)"

subsection \<open>What the alerts are expected to show\<close>

text \<open>
  One warning for each registered rule whose condition holds of the record, in the order
  of registration. \<^verbatim>\<open>check_alerts\<close> is compared with this list below.
\<close>

definition expected_notifications :: "(condition \<times> string) list \<Rightarrow> packet_info \<Rightarrow> string list" where
  "expected_notifications rules packet_info =
     map (\<lambda>(condition, message). ''Alert: '' @ message)
       (filter (\<lambda>(condition, message). condition packet_info = Returns True) rules)"

subsection \<open>Sample inputs\<close>

text \<open>A record that carries nothing but a sequence number, kept in its timestamp.\<close>

definition synthetic_record :: "nat \<Rightarrow> packet_info" where
  "synthetic_record i =
     \<lparr>timestamp = int i, source = ''10.0.0.1'', destination = ''10.0.0.2'',
      protocol = ''UDP'', pkt_size = 64, time_relative = 0,
      src_port = None, dst_port = None, tcp_flags = None,
      latitude = None, longitude = None\<rparr>"

definition geocode_nothing :: "string \<Rightarrow> (location option, geopy_error) outcome" where
  "geocode_nothing address = Returns None"

definition geocode_timeout :: "string \<Rightarrow> (location option, geopy_error) outcome" where
  "geocode_timeout address = Raises (GeopyError ''Service timed out'')"

definition geocode_place :: "string \<Rightarrow> (location option, geopy_error) outcome" where
  "geocode_place address = Returns (Some (52, 13))"

definition env_nothing :: env where
  "env_nothing = \<lparr>now1 = 5000000, now2 = 5000001, geocode = geocode_nothing\<rparr>"

definition env_timeout :: env where
  "env_timeout = \<lparr>now1 = 5000000, now2 = 5000001, geocode = geocode_timeout\<rparr>"

definition env_place :: env where
  "env_place = \<lparr>now1 = 5000000, now2 = 5000001, geocode = geocode_place\<rparr>"

definition sample_ip :: "int \<Rightarrow> ip_layer" where
  "sample_ip p = \<lparr>src = ''192.168.0.7'', dst = ''192.168.0.1'', proto = p\<rparr>"

definition arp_packet :: packet where
  "arp_packet = \<lparr>IP = None, TCP = None, UDP = None, len = 42\<rparr>"

definition icmp_packet :: packet where
  "icmp_packet = \<lparr>IP = Some (sample_ip 1), TCP = None, UDP = None, len = 60\<rparr>"

definition tcp_packet :: packet where
  "tcp_packet =
     \<lparr>IP = Some (sample_ip 6),
      TCP = Some \<lparr>tcp_sport = 1234, tcp_dport = 80, flags = 2\<rparr>,
      UDP = None, len = 1500\<rparr>"

definition udp_packet :: packet where
  "udp_packet =
     \<lparr>IP = Some (sample_ip 17), TCP = None,
      UDP = Some \<lparr>udp_sport = 5353, udp_dport = 5353\<rparr>, len = 200\<rparr>"

definition always_raises :: condition where
  "always_raises pkt = Raises (Exception ''boom'')"

definition always_holds :: condition where
  "always_holds pkt = Returns True"

text \<open>A condition that calls \<^verbatim>\<open>sys.exit\<close>, and one whose exception has no text.\<close>

definition exits :: condition where
  "exits pkt = Raises (BaseOnly ''SystemExit'')"

definition raises_unprintable :: condition where
  "raises_unprintable pkt = Raises (Unprintable (Exception ''no text''))"

text \<open>A processor with two rules: the first raises, the second holds of every record.\<close>

definition two_rules :: processor where
  "two_rules =
     add_alert (add_alert (PacketProcessor_init 0) always_raises ''first'') always_holds ''second''"

text \<open>A processor with the rule of \<^verbatim>\<open>main\<close> registered before those two.\<close>

definition three_rules :: processor where
  "three_rules =
     add_alert
       (add_alert
          (add_alert (PacketProcessor_init 0) large_tcp ''Large TCP packet detected'')
          always_raises ''first'')
       always_holds ''second''"

text \<open>A processor with only the rule of \<^verbatim>\<open>main\<close>.\<close>

definition main_rule :: processor where
  "main_rule = add_alert (PacketProcessor_init 0) large_tcp ''Large TCP packet detected''"

section \<open>Properties\<close>

subsection \<open>Decimal text is read back without loss\<close>

lemma small_digit:
  "d < 10 \<Longrightarrow> d = 0 \<or> d = 1 \<or> d = 2 \<or> d = 3 \<or> d = 4 \<or> d = 5 \<or> d = 6 \<or> d = 7 \<or> d = 8 \<or> d = (9::nat)"
  by arith

lemma digit_val_digit_char: "d < 10 \<Longrightarrow> digit_val (digit_char d) = d"
  using small_digit [of d] by (auto simp: digit_val_def digit_char_def)

lemma nat_of_str_snoc: "nat_of_str (cs @ [c]) = 10 * nat_of_str cs + digit_val c"
  by (simp add: nat_of_str_def)

lemma nat_of_str_str_nat: "nat_of_str (str_nat n) = n"
proof (induction n rule: str_nat.induct)
  case (1 n)
  show ?case
  proof (cases "n < 10")
    case True
    then show ?thesis
      by (simp add: str_nat.simps [of n] nat_of_str_def digit_val_digit_char)
  next
    case False
    with 1 have "nat_of_str (str_nat (n div 10)) = n div 10" by simp
    with False show ?thesis
      by (simp add: str_nat.simps [of n] nat_of_str_snoc digit_val_digit_char)
  qed
qed

lemma str_nat_inj: "str_nat n = str_nat m \<Longrightarrow> n = m"
  by (metis nat_of_str_str_nat)

lemma digit_char_not_minus: "d < 10 \<Longrightarrow> digit_char d \<noteq> CHR ''-''"
  using small_digit [of d] by (auto simp: digit_char_def)

lemma str_nat_not_Nil: "str_nat n \<noteq> []"
  by (subst str_nat.simps) simp

lemma hd_str_nat: "hd (str_nat n) \<noteq> CHR ''-''"
proof (induction n rule: str_nat.induct)
  case (1 n)
  show ?case
  proof (cases "n < 10")
    case True
    then show ?thesis by (simp add: str_nat.simps [of n] digit_char_not_minus)
  next
    case False
    with 1 have "hd (str_nat (n div 10)) \<noteq> CHR ''-''" by simp
    with False show ?thesis
      by (simp add: str_nat.simps [of n] str_nat_not_Nil)
  qed
qed

lemma str_int_inj: "str_int i = str_int j \<Longrightarrow> i = j"
proof -
  assume eq: "str_int i = str_int j"
  have neg_pos: "CHR ''-'' # str_nat a \<noteq> str_nat b" for a b
    using hd_str_nat [of b] by (metis list.sel(1))
  show "i = j"
  proof (cases "i < 0")
    case True
    show ?thesis
    proof (cases "j < 0")
      case True
      with \<open>i < 0\<close> eq have "str_nat (nat (- i)) = str_nat (nat (- j))"
        by (simp add: str_int_def)
      then have "nat (- i) = nat (- j)" by (rule str_nat_inj)
      with True \<open>i < 0\<close> show ?thesis by simp
    next
      case False
      with \<open>i < 0\<close> eq neg_pos show ?thesis by (simp add: str_int_def)
    qed
  next
    case False
    show ?thesis
    proof (cases "j < 0")
      case True
      with \<open>\<not> i < 0\<close> eq neg_pos [of "nat (- j)" "nat i"] show ?thesis
        by (simp add: str_int_def)
    next
      case False
      with \<open>\<not> i < 0\<close> eq have "str_nat (nat i) = str_nat (nat j)"
        by (simp add: str_int_def)
      then have "nat i = nat j" by (rule str_nat_inj)
      with False \<open>\<not> i < 0\<close> show ?thesis by simp
    qed
  qed
qed


lemma get_protocol_name_init:
  "get_protocol_name (PacketProcessor_init t) n =
     (if n = 1 then ''ICMP'' else if n = 6 then ''TCP'' else if n = 17 then ''UDP''
      else ''OTHER('' @ str_int n @ '')'')"
  by (simp add: get_protocol_name_def PacketProcessor_init_def)

subsection \<open>The retained history\<close>

lemma packet_data_append_record:
  "packet_data (append_record self r) =
     (if length (packet_data self) < 10000 then packet_data self @ [r]
      else tl (packet_data self @ [r]))"
  by (simp add: append_record_def Let_def)

lemma packet_count_append_record: "packet_count (append_record self r) = packet_count self + 1"
  by (simp add: append_record_def Let_def)

lemma retained_append_record:
  assumes "length (packet_data self) \<le> 10000"
  shows "packet_data (append_record self r) =
           drop (length (packet_data self @ [r]) - 10000) (packet_data self @ [r])"
proof (cases "length (packet_data self) < 10000")
  case True
  then show ?thesis by (simp add: packet_data_append_record)
next
  case False
  with assms have "length (packet_data self) = 10000" by simp
  then have "packet_data self \<noteq> []" by auto
  with \<open>length (packet_data self) = 10000\<close> show ?thesis
    by (simp add: packet_data_append_record drop_Suc)
qed

lemma drop_excess_append:
  "drop (length (drop (length ys - c) ys @ rs) - c) (drop (length ys - c) ys @ rs) =
   drop (length (ys @ rs) - c) (ys @ rs)"
proof -
  let ?k = "length ys - c"
  have a: "drop ?k ys @ rs = drop ?k (ys @ rs)" by simp
  have b: "(length (drop ?k (ys @ rs)) - c) + ?k = length (ys @ rs) - c" by simp
  show ?thesis unfolding a by (simp only: drop_drop b)
qed

lemma retained_foldl:
  "length (packet_data self) \<le> 10000 \<Longrightarrow>
   packet_data (foldl append_record self rs) =
     drop (length (packet_data self @ rs) - 10000) (packet_data self @ rs)"
proof (induction rs arbitrary: self)
  case Nil
  then show ?case by simp
next
  case (Cons r rs)
  let ?ys = "packet_data self @ [r]"
  have step: "packet_data (append_record self r) = drop (length ?ys - 10000) ?ys"
    using Cons.prems by (rule retained_append_record)
  have bound: "length (packet_data (append_record self r)) \<le> 10000"
    unfolding step by simp
  have "packet_data (foldl append_record self (r # rs)) =
        packet_data (foldl append_record (append_record self r) rs)" by simp
  also have "\<dots> = drop (length (packet_data (append_record self r) @ rs) - 10000)
                      (packet_data (append_record self r) @ rs)"
    using Cons.IH [OF bound] .
  also have "\<dots> = drop (length (?ys @ rs) - 10000) (?ys @ rs)"
    unfolding step by (rule drop_excess_append)
  finally show ?case by simp
qed

lemma count_foldl:
  "packet_count (foldl append_record self rs) = packet_count self + int (length rs)"
  by (induction rs arbitrary: self) (simp_all add: packet_count_append_record)

subsection \<open>The alert loop and the frame of each stage\<close>

lemma expected_notifications_Nil: "expected_notifications [] info = []"
  by (simp add: expected_notifications_def)

lemma expected_notifications_Cons:
  "expected_notifications ((c, m) # rules) info =
     (if c info = Returns True then [''Alert: '' @ m] else []) @ expected_notifications rules info"
  by (simp add: expected_notifications_def)

lemma expected_notifications_append:
  "expected_notifications (xs @ ys) info =
     expected_notifications xs info @ expected_notifications ys info"
  by (simp add: expected_notifications_def)

lemma check_alerts_loop_returns:
  "(\<forall>(c, m) \<in> set rules. \<exists>b. c info = Returns b) \<Longrightarrow>
   check_alerts_loop rules info self =
     (Returns (), self\<lparr>st_warnings := st_warnings self @ expected_notifications rules info\<rparr>)"
proof (induction rules arbitrary: self)
  case Nil
  then show ?case by (simp add: expected_notifications_Nil)
next
  case (Cons rule rules)
  obtain c m where rule: "rule = (c, m)" by (cases rule)
  from Cons.prems rule obtain b where b: "c info = Returns b" by auto
  from Cons.prems have rest: "\<forall>(c, m) \<in> set rules. \<exists>b. c info = Returns b" by simp
  show ?case
    by (cases b) (simp_all add: rule b Cons.IH [OF rest] expected_notifications_Cons)
qed

lemma check_alerts_loop_raises:
  "(\<forall>(c, m) \<in> set pre. \<exists>b. c info = Returns b) \<Longrightarrow> c info = Raises ex \<Longrightarrow>
   check_alerts_loop (pre @ (c, m) # post) info self =
     (Raises ex, self\<lparr>st_warnings := st_warnings self @ expected_notifications pre info\<rparr>)"
proof (induction pre arbitrary: self)
  case Nil
  then show ?case by (simp add: expected_notifications_Nil)
next
  case (Cons rule pre)
  obtain c' m' where rule: "rule = (c', m')" by (cases rule)
  from Cons.prems rule obtain b where b: "c' info = Returns b" by auto
  from Cons.prems have rest: "\<forall>(c, m) \<in> set pre. \<exists>b. c info = Returns b" by simp
  show ?case
    by (cases b)
      (simp_all add: rule b Cons.IH [OF rest Cons.prems(2)] expected_notifications_Cons)
qed

lemma check_alerts_loop_frame:
  "\<exists>w. snd (check_alerts_loop rules info self) = self\<lparr>st_warnings := st_warnings self @ w\<rparr>"
proof (induction rules arbitrary: self)
  case Nil
  have "snd (check_alerts_loop [] info self) = self\<lparr>st_warnings := st_warnings self @ []\<rparr>"
    by simp
  then show ?case ..
next
  case (Cons rule rules)
  obtain c m where rule: "rule = (c, m)" by (cases rule)
  show ?case
  proof (cases "c info")
    case (Raises ex)
    then have "snd (check_alerts_loop (rule # rules) info self) =
                 self\<lparr>st_warnings := st_warnings self @ []\<rparr>"
      by (simp add: rule)
    then show ?thesis ..
  next
    case (Returns b)
    let ?s = "if b then self\<lparr>st_warnings := st_warnings self @ [''Alert: '' @ m]\<rparr> else self"
    from Cons.IH [of ?s] obtain w where
      w: "snd (check_alerts_loop rules info ?s) = ?s\<lparr>st_warnings := st_warnings ?s @ w\<rparr>" ..
    show ?thesis
    proof (cases b)
      case True
      with w Returns rule
      have "snd (check_alerts_loop (rule # rules) info self) =
              self\<lparr>st_warnings := st_warnings self @ ([''Alert: '' @ m] @ w)\<rparr>" by simp
      then show ?thesis ..
    next
      case False
      with w Returns rule
      have "snd (check_alerts_loop (rule # rules) info self) =
              self\<lparr>st_warnings := st_warnings self @ w\<rparr>" by simp
      then show ?thesis ..
    qed
  qed
qed

lemma check_alerts_frame:
  "packet_data (snd (check_alerts self info)) = packet_data self"
  "packet_count (snd (check_alerts self info)) = packet_count self"
  "logged (snd (check_alerts self info)) = logged self"
  "alerts (snd (check_alerts self info)) = alerts self"
  "protocol_map (snd (check_alerts self info)) = protocol_map self"
  "start_time (snd (check_alerts self info)) = start_time self"
  using check_alerts_loop_frame [of "alerts self" info self]
  by (auto simp: check_alerts_def)

lemma geolocate_frame:
  "packet_data (snd (geolocate e ip info self)) = packet_data self"
  "packet_count (snd (geolocate e ip info self)) = packet_count self"
  "st_warnings (snd (geolocate e ip info self)) = st_warnings self"
  "alerts (snd (geolocate e ip info self)) = alerts self"
  "protocol_map (snd (geolocate e ip info self)) = protocol_map self"
  "start_time (snd (geolocate e ip info self)) = start_time self"
  by (simp_all add: geolocate_def split: outcome.splits option.splits prod.splits)

lemma process_packet_body_None:
  "IP packet = None \<Longrightarrow> process_packet_body e self packet = (Returns (), self)"
  by (simp add: process_packet_body_def)

lemma process_packet_body_Some:
  "IP packet = Some ip \<Longrightarrow>
   process_packet_body e self packet =
     (case check_alerts (geolocated_state e self packet ip) (built_info e self packet ip) of
        (Raises ex, self') \<Rightarrow> (Raises ex, self')
      | (Returns u, self') \<Rightarrow> (Returns (), append_record self' (built_info e self packet ip)))"
  by (simp add: process_packet_body_def built_info_def geolocated_state_def Let_def
      split: prod.splits outcome.splits)

lemma geolocated_state_frame:
  "packet_data (geolocated_state e self packet ip) = packet_data self"
  "packet_count (geolocated_state e self packet ip) = packet_count self"
  "st_warnings (geolocated_state e self packet ip) = st_warnings self"
  "alerts (geolocated_state e self packet ip) = alerts self"
  by (simp_all add: geolocated_state_def geolocate_frame)

lemma last_append_record: "last (packet_data (append_record self r)) = r"
proof (cases "length (packet_data self) < 10000")
  case True
  then show ?thesis by (simp add: packet_data_append_record)
next
  case False
  then have "packet_data self \<noteq> []" by auto
  with False show ?thesis by (simp add: packet_data_append_record)
qed

subsection \<open>One call of the method\<close>

lemma process_packet_returns:
  "IP packet = Some ip \<Longrightarrow>
   check_alerts (geolocated_state e self packet ip) (built_info e self packet ip) = (Returns u, s) \<Longrightarrow>
   process_packet e self packet = (Returns (), append_record s (built_info e self packet ip))"
  by (simp add: process_packet_def process_packet_body_Some except_log_def)

lemma process_packet_raises:
  "IP packet = Some ip \<Longrightarrow>
   check_alerts (geolocated_state e self packet ip) (built_info e self packet ip) = (Raises ex, s) \<Longrightarrow>
   process_packet e self packet = except_log (Raises ex, s)"
  by (simp add: process_packet_def process_packet_body_Some)

lemma except_log_frame:
  "packet_data (snd (except_log (r, s))) = packet_data s"
  "packet_count (snd (except_log (r, s))) = packet_count s"
  "st_warnings (snd (except_log (r, s))) = st_warnings s"
  "alerts (snd (except_log (r, s))) = alerts s"
  "protocol_map (snd (except_log (r, s))) = protocol_map s"
  by (simp_all add: except_log_def split: outcome.splits)

lemma except_log_printed:
  "is_Exception ex \<Longrightarrow> str_exn ex = Returns msg \<Longrightarrow>
   except_log (Raises ex, s) =
     (Returns (), s\<lparr>logged := logged s @ [''Error processing packet: '' @ msg]\<rparr>)"
  by (simp add: except_log_def)

lemma check_alerts_loop_raised_by:
  "check_alerts_loop rules info self = (Raises ex, s) \<Longrightarrow>
   \<exists>(c, m) \<in> set rules. c info = Raises ex"
proof (induction rules arbitrary: self)
  case Nil
  then show ?case by simp
next
  case (Cons rule rules)
  obtain c m where rule: "rule = (c, m)" by (cases rule)
  show ?case
  proof (cases "c info")
    case (Raises ex')
    with Cons.prems rule show ?thesis by simp
  next
    case (Returns b)
    with Cons.prems rule
    have "check_alerts_loop rules info
            (if b then self\<lparr>st_warnings := st_warnings self @ [''Alert: '' @ m]\<rparr> else self)
          = (Raises ex, s)"
      by simp
    from Cons.IH [OF this] show ?thesis by auto
  qed
qed

lemma checked_frame:
  "check_alerts (geolocated_state e self packet ip) info = (r, s) \<Longrightarrow>
   packet_data s = packet_data self \<and> packet_count s = packet_count self"
  using check_alerts_frame(1,2) [of "geolocated_state e self packet ip" info]
  by (simp add: geolocated_state_frame)

lemma append_record_frame:
  "st_warnings (append_record s r) = st_warnings s"
  "logged (append_record s r) = logged s"
  by (simp_all add: append_record_def Let_def)

lemma fresh_info_no_place:
  "latitude (add_transport packet (new_packet_info e self packet ip)) = None"
  "longitude (add_transport packet (new_packet_info e self packet ip)) = None"
  by (simp_all add: add_transport_def new_packet_info_def split: option.splits)

lemma built_info_transport:
  "src_port (built_info e self packet ip) = src_port (add_transport packet (new_packet_info e self packet ip))"
  "dst_port (built_info e self packet ip) = dst_port (add_transport packet (new_packet_info e self packet ip))"
  "tcp_flags (built_info e self packet ip) = tcp_flags (add_transport packet (new_packet_info e self packet ip))"
  by (simp_all add: built_info_def geolocate_def split: outcome.splits option.splits prod.splits)

lemma add_transport_fields:
  "src_port (add_transport packet (new_packet_info e self packet ip)) =
     (case TCP packet of Some t \<Rightarrow> Some (tcp_sport t)
      | None \<Rightarrow> (case UDP packet of Some u \<Rightarrow> Some (udp_sport u) | None \<Rightarrow> None))"
  "dst_port (add_transport packet (new_packet_info e self packet ip)) =
     (case TCP packet of Some t \<Rightarrow> Some (tcp_dport t)
      | None \<Rightarrow> (case UDP packet of Some u \<Rightarrow> Some (udp_dport u) | None \<Rightarrow> None))"
  "tcp_flags (add_transport packet (new_packet_info e self packet ip)) =
     (case TCP packet of Some t \<Rightarrow> Some (flags t) | None \<Rightarrow> None)"
  by (simp_all add: add_transport_def new_packet_info_def split: option.splits)

text \<open>No call changes the protocol table or the list of rules.\<close>

lemma process_packet_keeps_table:
  "protocol_map (snd (process_packet e self packet)) = protocol_map self
   \<and> alerts (snd (process_packet e self packet)) = alerts self"
proof (cases "IP packet")
  case None
  then show ?thesis
    by (simp add: process_packet_def process_packet_body_None except_log_def)
next
  case (Some ip)
  let ?s = "geolocated_state e self packet ip"
  let ?info = "built_info e self packet ip"
  obtain r s where c: "check_alerts ?s ?info = (r, s)"
    by (cases "check_alerts ?s ?info")
  have s: "protocol_map s = protocol_map self \<and> alerts s = alerts self"
    using check_alerts_frame(4,5) [of ?s ?info] c
    by (simp add: geolocated_state_def geolocate_frame)
  show ?thesis
  proof (cases r)
    case (Raises ex)
    with process_packet_raises [OF Some c [unfolded Raises]] s show ?thesis
      by (simp add: except_log_frame)
  next
    case (Returns u)
    with process_packet_returns [OF Some c [unfolded Returns]] s show ?thesis
      by (simp add: append_record_def Let_def)
  qed
qed

subsection \<open>Claims\<close>

text \<open>
  C1. Records appended one after another to a new processor: the retained sequence never
  has more than 10000 records, it is the input without its first \<open>length rs - 10000\<close>
  records (the last 10000 in arrival order once more than 10000 have come, the oldest gone
  first), and after the records numbered 1 to 10050 it holds those numbered 51 to 10050 in
  ascending order.
\<close>

theorem retained_history_fifo:
  "length (packet_data (foldl append_record (PacketProcessor_init t) rs)) \<le> 10000
   \<and> packet_data (foldl append_record (PacketProcessor_init t) rs) = drop (length rs - 10000) rs
   \<and> (10000 < length rs \<longrightarrow>
        length (packet_data (foldl append_record (PacketProcessor_init t) rs)) = 10000)
   \<and> packet_data (foldl append_record (PacketProcessor_init t)
         (map synthetic_record [1..<10051])) = map synthetic_record [51..<10051]"
proof -
  have init: "packet_data (PacketProcessor_init t) = []"
    by (simp add: PacketProcessor_init_def)
  have kept: "packet_data (foldl append_record (PacketProcessor_init t) xs) =
                drop (length xs - 10000) xs" for xs
    using retained_foldl [of "PacketProcessor_init t" xs] by (simp add: init)
  have a: "length (packet_data (foldl append_record (PacketProcessor_init t) rs)) \<le> 10000"
    unfolding kept by simp
  have c: "10000 < length rs \<longrightarrow>
        length (packet_data (foldl append_record (PacketProcessor_init t) rs)) = 10000"
    unfolding kept by simp
  have d: "packet_data (foldl append_record (PacketProcessor_init t)
         (map synthetic_record [1..<10051])) = map synthetic_record [51..<10051]"
  proof -
    have "drop 50 [1..<10051] = [1 + 50..<10051]" by (rule drop_upt)
    moreover have "(1::nat) + 50 = 51" by simp
    ultimately have "drop 50 [1..<10051] = [51..<10051]" by (simp only:)
    then show ?thesis
      unfolding kept by (simp add: drop_map del: upt_rec_numeral)
  qed
  from a kept c d show ?thesis by blast
qed

text \<open>The 10050 numbered records are more than 10000, and 10000 of them are retained.\<close>

theorem retained_history_fifo_witness:
  "10000 < length (map synthetic_record [1..<10051])
   \<and> length (packet_data (foldl append_record (PacketProcessor_init 0)
        (map synthetic_record [1..<10051]))) = 10000
   \<and> packet_data (foldl append_record (PacketProcessor_init 0)
        (map synthetic_record [1..<10051])) = map synthetic_record [51..<10051]"
proof -
  have long: "10000 < length (map synthetic_record [1..<10051])"
    by (simp del: upt_rec_numeral)
  with retained_history_fifo [of 0 "map synthetic_record [1..<10051]"]
  show ?thesis by blast
qed

text \<open>
  C2, as stated, fails. The processor \<open>two_rules\<close> has a rule that raises before a rule
  that holds of every record. On a TCP packet the second rule is never evaluated (no warning
  is shown although its condition holds of the record), and the record is neither appended
  nor counted; only the handler of \<^verbatim>\<open>process_packet\<close> logs the exception.
\<close>

theorem raising_condition_not_isolated:
  "always_holds (built_info env_nothing two_rules tcp_packet (sample_ip 6)) = Returns True
   \<and> st_warnings (snd (process_packet env_nothing two_rules tcp_packet)) = []
   \<and> packet_data (snd (process_packet env_nothing two_rules tcp_packet)) = []
   \<and> packet_count (snd (process_packet env_nothing two_rules tcp_packet)) = 0
   \<and> logged (snd (process_packet env_nothing two_rules tcp_packet)) =
       [''Error processing packet: boom'']"
  by (simp add: process_packet_def process_packet_body_def except_log_def tcp_packet_def
      two_rules_def add_alert_def PacketProcessor_init_def env_nothing_def geocode_nothing_def
      geolocate_def check_alerts_def always_raises_def always_holds_def Let_def)

text \<open>
  C2, amended. When a condition raises on the record and the conditions registered before
  it return, evaluation stops at that rule: the rules before it have shown their warnings,
  the rules after it are not evaluated (the result does not depend on them), and the record
  is dropped: the retained history and the counter are as before the call. When the
  exception is an instance of \<^verbatim>\<open>Exception\<close> whose text can be taken, the handler of
  \<^verbatim>\<open>process_packet\<close> logs it and \<^verbatim>\<open>process_packet\<close> returns normally.
\<close>

theorem raising_condition_drops_record:
  "IP packet = Some ip \<Longrightarrow>
   alerts self = pre @ (c, m) # post \<Longrightarrow>
   (\<forall>(c', m') \<in> set pre. \<exists>b. c' (built_info e self packet ip) = Returns b) \<Longrightarrow>
   c (built_info e self packet ip) = Raises ex \<Longrightarrow>
   st_warnings (snd (process_packet e self packet)) =
     st_warnings self @ expected_notifications pre (built_info e self packet ip)
   \<and> packet_data (snd (process_packet e self packet)) = packet_data self
   \<and> packet_count (snd (process_packet e self packet)) = packet_count self
   \<and> (is_Exception ex \<and> str_exn ex = Returns msg \<longrightarrow>
        process_packet e self packet =
          (Returns (),
           (geolocated_state e self packet ip)
             \<lparr>st_warnings := st_warnings self @
                               expected_notifications pre (built_info e self packet ip),
              logged := logged (geolocated_state e self packet ip) @
                          [''Error processing packet: '' @ msg]\<rparr>))"
proof -
  assume ip: "IP packet = Some ip"
    and rules: "alerts self = pre @ (c, m) # post"
    and pre: "\<forall>(c', m') \<in> set pre. \<exists>b. c' (built_info e self packet ip) = Returns b"
    and raises: "c (built_info e self packet ip) = Raises ex"
  let ?s = "geolocated_state e self packet ip"
  let ?info = "built_info e self packet ip"
  let ?s' = "?s\<lparr>st_warnings := st_warnings self @ expected_notifications pre ?info\<rparr>"
  have "check_alerts ?s ?info = (Raises ex, ?s')"
    using pre raises
      check_alerts_loop_raises [where pre = pre and info = ?info and c = c and ex = ex
        and m = m and post = post and self = ?s]
    by (simp add: check_alerts_def geolocated_state_frame rules)
  from process_packet_raises [OF ip this]
  have handled: "process_packet e self packet = except_log (Raises ex, ?s')" .
  have dropped: "st_warnings (snd (process_packet e self packet)) =
      st_warnings self @ expected_notifications pre ?info"
    "packet_data (snd (process_packet e self packet)) = packet_data self"
    "packet_count (snd (process_packet e self packet)) = packet_count self"
    unfolding handled by (simp_all add: except_log_frame geolocated_state_frame)
  have logged: "process_packet e self packet =
      (Returns (), ?s\<lparr>st_warnings := st_warnings self @ expected_notifications pre ?info,
                         logged := logged ?s @ [''Error processing packet: '' @ msg]\<rparr>)"
    if "is_Exception ex" and "str_exn ex = Returns msg"
    using except_log_printed [OF that, of ?s'] handled by simp
  from dropped logged show ?thesis by blast
qed

text \<open>
  With \<open>three_rules\<close> and the sample TCP packet: the first rule shows its warning, the
  second raises, the third is not reached, and nothing is appended or counted.
\<close>

theorem raising_condition_drops_record_witness:
  "IP tcp_packet = Some (sample_ip 6)
   \<and> alerts three_rules =
       [(large_tcp, ''Large TCP packet detected'')] @
       (always_raises, ''first'') # [(always_holds, ''second'')]
   \<and> large_tcp (built_info env_place three_rules tcp_packet (sample_ip 6)) = Returns True
   \<and> always_raises (built_info env_place three_rules tcp_packet (sample_ip 6)) =
       Raises (Exception ''boom'')
   \<and> is_Exception (Exception ''boom'') \<and> str_exn (Exception ''boom'') = Returns ''boom''
   \<and> fst (process_packet env_place three_rules tcp_packet) = Returns ()
   \<and> packet_data (snd (process_packet env_place three_rules tcp_packet)) = []
   \<and> packet_count (snd (process_packet env_place three_rules tcp_packet)) = 0
   \<and> st_warnings (snd (process_packet env_place three_rules tcp_packet)) =
       [''Alert: Large TCP packet detected'']
   \<and> logged (snd (process_packet env_place three_rules tcp_packet)) =
       [''Error processing packet: boom'']"
proof -
  let ?info = "built_info env_place three_rules tcp_packet (sample_ip 6)"
  have ip: "IP tcp_packet = Some (sample_ip 6)" by (simp add: tcp_packet_def)
  have rules: "alerts three_rules =
       [(large_tcp, ''Large TCP packet detected'')] @
       (always_raises, ''first'') # [(always_holds, ''second'')]"
    by (simp add: three_rules_def add_alert_def PacketProcessor_init_def)
  have large: "large_tcp ?info = Returns True"
    by (simp add: large_tcp_def built_info_def geolocate_def env_place_def geocode_place_def
        add_transport_def new_packet_info_def tcp_packet_def sample_ip_def
        get_protocol_name_def three_rules_def add_alert_def PacketProcessor_init_def)
  then have pre: "\<forall>(c', m') \<in> set [(large_tcp, ''Large TCP packet detected'')].
      \<exists>b. c' ?info = Returns b"
    by auto
  have raises: "always_raises ?info = Raises (Exception ''boom'')"
    by (simp add: always_raises_def)
  have start: "st_warnings three_rules = []" "packet_data three_rules = []"
    "packet_count three_rules = 0"
    by (simp_all add: three_rules_def add_alert_def PacketProcessor_init_def)
  have log: "logged (geolocated_state env_place three_rules tcp_packet (sample_ip 6)) = []"
    by (simp add: geolocated_state_def geolocate_def env_place_def geocode_place_def
        three_rules_def add_alert_def PacketProcessor_init_def)
  have shown: "expected_notifications [(large_tcp, ''Large TCP packet detected'')] ?info =
      [''Alert: Large TCP packet detected'']"
    by (simp add: expected_notifications_def large)
  from raising_condition_drops_record [OF ip rules pre raises, of "''boom''"]
    ip rules large raises start log shown
  show ?thesis by (simp add: geolocated_state_frame)
qed

text \<open>
  C3. After \<open>N\<close> records have been appended to a new processor, \<open>packet_count\<close> is \<open>N\<close>,
  whatever has been evicted; past 10000 records it is larger than the retained size.
\<close>

theorem packet_count_total:
  "packet_count (foldl append_record (PacketProcessor_init t) rs) = int (length rs)
   \<and> (10000 < length rs \<longrightarrow>
        int (length (packet_data (foldl append_record (PacketProcessor_init t) rs)))
          < packet_count (foldl append_record (PacketProcessor_init t) rs))"
proof -
  have n: "packet_count (foldl append_record (PacketProcessor_init t) rs) = int (length rs)"
    using count_foldl [of "PacketProcessor_init t" rs] by (simp add: PacketProcessor_init_def)
  have "packet_data (foldl append_record (PacketProcessor_init t) rs) =
          drop (length rs - 10000) rs"
    using retained_foldl [of "PacketProcessor_init t" rs] by (simp add: PacketProcessor_init_def)
  then have "10000 < length rs \<longrightarrow>
        int (length (packet_data (foldl append_record (PacketProcessor_init t) rs))) < int (length rs)"
    by simp
  with n show ?thesis by simp
qed

text \<open>After 10050 records the counter is 10050 and fewer records are retained.\<close>

theorem packet_count_total_witness:
  "10000 < length (map synthetic_record [1..<10051])
   \<and> packet_count (foldl append_record (PacketProcessor_init 0)
        (map synthetic_record [1..<10051])) = 10050
   \<and> length (packet_data (foldl append_record (PacketProcessor_init 0)
        (map synthetic_record [1..<10051]))) < 10050"
proof -
  have long: "length (map synthetic_record [1..<10051]) = 10050"
    by (simp del: upt_rec_numeral)
  with packet_count_total [of 0 "map synthetic_record [1..<10051]"]
  show ?thesis by simp
qed

text \<open>
  C4. For a packet with an IP layer, the record built for it has \<open>src_port\<close>, \<open>dst_port\<close>
  and \<open>tcp_flags\<close> equal to the TCP layer's ports and flags when there is a TCP layer;
  otherwise the two ports of the UDP layer and no \<open>tcp_flags\<close> when there is a UDP layer;
  otherwise none of the three. So \<open>tcp_flags\<close> is present exactly with a TCP layer, the
  ports exactly with a TCP or a UDP layer, and the two variants exclude each other. This
  is the record that is appended when the alerts return.
\<close>

theorem transport_fields_follow_headers:
  "IP packet = Some ip \<Longrightarrow>
   (\<forall>t. TCP packet = Some t \<longrightarrow>
      src_port (built_info e self packet ip) = Some (tcp_sport t)
      \<and> dst_port (built_info e self packet ip) = Some (tcp_dport t)
      \<and> tcp_flags (built_info e self packet ip) = Some (flags t))
   \<and> (\<forall>u. TCP packet = None \<and> UDP packet = Some u \<longrightarrow>
      src_port (built_info e self packet ip) = Some (udp_sport u)
      \<and> dst_port (built_info e self packet ip) = Some (udp_dport u)
      \<and> tcp_flags (built_info e self packet ip) = None)
   \<and> (TCP packet = None \<and> UDP packet = None \<longrightarrow>
      src_port (built_info e self packet ip) = None
      \<and> dst_port (built_info e self packet ip) = None
      \<and> tcp_flags (built_info e self packet ip) = None)
   \<and> (tcp_flags (built_info e self packet ip) \<noteq> None) = (TCP packet \<noteq> None)
   \<and> (src_port (built_info e self packet ip) \<noteq> None) = (TCP packet \<noteq> None \<or> UDP packet \<noteq> None)
   \<and> (dst_port (built_info e self packet ip) \<noteq> None) = (TCP packet \<noteq> None \<or> UDP packet \<noteq> None)
   \<and> (fst (check_alerts (geolocated_state e self packet ip) (built_info e self packet ip))
          = Returns () \<longrightarrow>
        last (packet_data (snd (process_packet e self packet))) = built_info e self packet ip)"
proof -
  assume ip: "IP packet = Some ip"
  have appended: "last (packet_data (snd (process_packet e self packet))) = built_info e self packet ip"
    if r: "fst (check_alerts (geolocated_state e self packet ip) (built_info e self packet ip))
          = Returns ()"
  proof -
    obtain s where c: "check_alerts (geolocated_state e self packet ip)
        (built_info e self packet ip) = (Returns (), s)"
      using r by (cases "check_alerts (geolocated_state e self packet ip)
        (built_info e self packet ip)") simp
    from process_packet_returns [OF ip c] show ?thesis by (simp add: last_append_record)
  qed
  show ?thesis
    using appended
    by (auto simp: built_info_transport add_transport_fields split: option.splits)
qed

text \<open>
  The sample TCP packet, ports 1234 to 80 with flags 2, and the sample UDP packet, ports
  5353 to 5353.
\<close>

theorem transport_fields_follow_headers_witness:
  "IP tcp_packet = Some (sample_ip 6)
   \<and> TCP tcp_packet = Some \<lparr>tcp_sport = 1234, tcp_dport = 80, flags = 2\<rparr>
   \<and> src_port (built_info env_place two_rules tcp_packet (sample_ip 6)) = Some 1234
   \<and> dst_port (built_info env_place two_rules tcp_packet (sample_ip 6)) = Some 80
   \<and> tcp_flags (built_info env_place two_rules tcp_packet (sample_ip 6)) = Some 2
   \<and> IP udp_packet = Some (sample_ip 17)
   \<and> TCP udp_packet = None
   \<and> UDP udp_packet = Some \<lparr>udp_sport = 5353, udp_dport = 5353\<rparr>
   \<and> src_port (built_info env_place two_rules udp_packet (sample_ip 17)) = Some 5353
   \<and> dst_port (built_info env_place two_rules udp_packet (sample_ip 17)) = Some 5353
   \<and> tcp_flags (built_info env_place two_rules udp_packet (sample_ip 17)) = None"
proof -
  have ip: "IP tcp_packet = Some (sample_ip 6)" by (simp add: tcp_packet_def)
  have tcp: "TCP tcp_packet = Some \<lparr>tcp_sport = 1234, tcp_dport = 80, flags = 2\<rparr>"
    by (simp add: tcp_packet_def)
  have ip': "IP udp_packet = Some (sample_ip 17)" by (simp add: udp_packet_def)
  have udp: "TCP udp_packet = None"
    "UDP udp_packet = Some \<lparr>udp_sport = 5353, udp_dport = 5353\<rparr>"
    by (simp_all add: udp_packet_def)
  from transport_fields_follow_headers [OF ip, of env_place two_rules]
    transport_fields_follow_headers [OF ip', of env_place two_rules] tcp ip udp ip'
  show ?thesis by simp
qed

text \<open>
  C5. \<open>get_protocol_name\<close> with the table set by the constructor: 1, 6 and 17 give
  \<open>ICMP\<close>, \<open>TCP\<close> and \<open>UDP\<close>; every other integer \<open>n\<close> gives \<open>OTHER(n)\<close> with \<open>n\<close> in
  decimal; different integers outside the table give different labels, since the decimal
  text determines the integer; and no two integers at all share a label.
\<close>

theorem get_protocol_name_classifier:
  "get_protocol_name (PacketProcessor_init t) 1 = ''ICMP''
   \<and> get_protocol_name (PacketProcessor_init t) 6 = ''TCP''
   \<and> get_protocol_name (PacketProcessor_init t) 17 = ''UDP''
   \<and> (n \<notin> {1, 6, 17} \<longrightarrow>
        get_protocol_name (PacketProcessor_init t) n = ''OTHER('' @ str_int n @ '')'')
   \<and> (n \<notin> {1, 6, 17} \<and> m \<notin> {1, 6, 17} \<and> n \<noteq> m \<longrightarrow>
        get_protocol_name (PacketProcessor_init t) n \<noteq> get_protocol_name (PacketProcessor_init t) m)
   \<and> (str_int n = str_int m \<longrightarrow> n = m)
   \<and> (get_protocol_name (PacketProcessor_init t) n = get_protocol_name (PacketProcessor_init t) m
        \<longrightarrow> n = m)"
proof -
  have inj: "get_protocol_name (PacketProcessor_init t) a = get_protocol_name (PacketProcessor_init t) b
        \<Longrightarrow> a = b" for a b
    by (auto simp: get_protocol_name_init dest: str_int_inj split: if_splits)
  have other: "n \<notin> {1, 6, 17} \<longrightarrow>
        get_protocol_name (PacketProcessor_init t) n = ''OTHER('' @ str_int n @ '')''"
    by (simp add: get_protocol_name_init)
  have fixed: "get_protocol_name (PacketProcessor_init t) 1 = ''ICMP''"
    "get_protocol_name (PacketProcessor_init t) 6 = ''TCP''"
    "get_protocol_name (PacketProcessor_init t) 17 = ''UDP''"
    by (simp_all add: get_protocol_name_init)
  from inj other fixed str_int_inj show ?thesis by blast
qed

text \<open>Protocols 47 and 50 are outside the table and get the labels of their numbers.\<close>

theorem get_protocol_name_classifier_witness:
  "(47::int) \<notin> {1, 6, 17} \<and> (50::int) \<notin> {1, 6, 17} \<and> (47::int) \<noteq> 50
   \<and> get_protocol_name (PacketProcessor_init 0) 47 = ''OTHER(47)''
   \<and> get_protocol_name (PacketProcessor_init 0) 47 \<noteq> get_protocol_name (PacketProcessor_init 0) 50"
  using get_protocol_name_classifier [of 0 47 50]
  by (simp add: get_protocol_name_init str_int_def str_nat.simps digit_char_def)

text \<open>
  C6. A packet without an IP layer produces no record: \<^verbatim>\<open>process_packet\<close> returns and the
  whole state, the retained history and the counter with it, is unchanged.
\<close>

theorem no_ip_header_no_record:
  "IP packet = None \<Longrightarrow>
   process_packet e self packet = (Returns (), self)
   \<and> packet_data (snd (process_packet e self packet)) = packet_data self
   \<and> packet_count (snd (process_packet e self packet)) = packet_count self"
  by (simp add: process_packet_def process_packet_body_None except_log_def)

text \<open>An ARP packet leaves the processor as it was.\<close>

theorem no_ip_header_no_record_witness:
  "IP arp_packet = None
   \<and> process_packet env_place two_rules arp_packet = (Returns (), two_rules)"
  using no_ip_header_no_record [of arp_packet env_place two_rules]
  by (simp add: arp_packet_def)

text \<open>
  C7, as stated, fails. When the geocoder returns no result nothing is logged: after an
  ICMP packet whose source has no location the log of a new processor is still empty,
  though the record has been counted. And a record whose lookup failed is not always
  appended: with \<open>two_rules\<close>, whose first condition raises, a lookup that times out or
  finds nothing leaves the history empty and the counter at 0.
\<close>

theorem geocode_no_result_is_silent:
  "geocode env_nothing (src (sample_ip 1)) = Returns None
   \<and> logged (snd (process_packet env_nothing (PacketProcessor_init 0) icmp_packet)) = []
   \<and> packet_count (snd (process_packet env_nothing (PacketProcessor_init 0) icmp_packet)) = 1
   \<and> packet_data (snd (process_packet env_timeout two_rules icmp_packet)) = []
   \<and> packet_count (snd (process_packet env_timeout two_rules icmp_packet)) = 0
   \<and> packet_data (snd (process_packet env_nothing two_rules icmp_packet)) = []
   \<and> packet_count (snd (process_packet env_nothing two_rules icmp_packet)) = 0"
  by (simp add: process_packet_def process_packet_body_def except_log_def icmp_packet_def
      env_nothing_def geocode_nothing_def env_timeout_def geocode_timeout_def geolocate_def
      check_alerts_def append_record_def two_rules_def add_alert_def always_raises_def
      PacketProcessor_init_def Let_def)

text \<open>
  C7, amended. For a packet with an IP layer: when the lookup raises, the record is left
  as it was and the error is logged; when it returns no result, the record and the
  state are left as they were, with no log entry; \<open>latitude\<close> and \<open>longitude\<close> are present
  exactly when the lookup returned a place. When the lookup gave no place, the unchanged
  record is the one the alerts are checked on, and it is appended exactly when the check
  returns; so when every registered condition returns on it, \<^verbatim>\<open>process_packet\<close> returns
  with the warnings shown and the unchanged record appended and counted.
\<close>

theorem geolocation_failure_keeps_record:
  "IP packet = Some ip \<Longrightarrow>
   (geocode e (src ip) = Raises ex \<longrightarrow>
      geolocate e ip info self =
        (info, self\<lparr>logged := logged self @ [''Error in geolocation: '' @ str_geopy ex]\<rparr>))
   \<and> (geocode e (src ip) = Returns None \<longrightarrow> geolocate e ip info self = (info, self))
   \<and> (latitude (built_info e self packet ip) \<noteq> None) = (\<exists>loc. geocode e (src ip) = Returns (Some loc))
   \<and> (longitude (built_info e self packet ip) \<noteq> None) = (\<exists>loc. geocode e (src ip) = Returns (Some loc))
   \<and> ((\<forall>loc. geocode e (src ip) \<noteq> Returns (Some loc)) \<longrightarrow>
        built_info e self packet ip = add_transport packet (new_packet_info e self packet ip)
        \<and> process_packet_body e self packet =
            (case check_alerts (geolocated_state e self packet ip)
                    (add_transport packet (new_packet_info e self packet ip)) of
               (Raises ex', self') \<Rightarrow> (Raises ex', self')
             | (Returns u, self') \<Rightarrow>
                 (Returns (),
                  append_record self' (add_transport packet (new_packet_info e self packet ip)))))
   \<and> ((\<forall>loc. geocode e (src ip) \<noteq> Returns (Some loc))
        \<and> (\<forall>(c, m) \<in> set (alerts self).
              \<exists>b. c (add_transport packet (new_packet_info e self packet ip)) = Returns b)
      \<longrightarrow> process_packet e self packet =
            (Returns (),
             append_record
               ((geolocated_state e self packet ip)
                  \<lparr>st_warnings := st_warnings self @
                     expected_notifications (alerts self)
                       (add_transport packet (new_packet_info e self packet ip))\<rparr>)
               (add_transport packet (new_packet_info e self packet ip)))
          \<and> last (packet_data (snd (process_packet e self packet))) =
              add_transport packet (new_packet_info e self packet ip)
          \<and> packet_count (snd (process_packet e self packet)) = packet_count self + 1)"
proof -
  assume ip: "IP packet = Some ip"
  let ?info = "add_transport packet (new_packet_info e self packet ip)"
  let ?s = "geolocated_state e self packet ip"
  have a: "geocode e (src ip) = Raises ex \<longrightarrow>
      geolocate e ip info self =
        (info, self\<lparr>logged := logged self @ [''Error in geolocation: '' @ str_geopy ex]\<rparr>)"
    by (simp add: geolocate_def)
  have b: "geocode e (src ip) = Returns None \<longrightarrow> geolocate e ip info self = (info, self)"
    by (simp add: geolocate_def)
  have fresh: "latitude ?info = None" "longitude ?info = None"
    by (rule fresh_info_no_place)+
  have c: "(latitude (built_info e self packet ip) \<noteq> None) = (\<exists>loc. geocode e (src ip) = Returns (Some loc))"
    using fresh
    by (auto simp: built_info_def geolocate_def split: outcome.splits option.splits prod.splits)
  have d: "(longitude (built_info e self packet ip) \<noteq> None) = (\<exists>loc. geocode e (src ip) = Returns (Some loc))"
    using fresh
    by (auto simp: built_info_def geolocate_def split: outcome.splits option.splits prod.splits)
  have same: "built_info e self packet ip = ?info"
    if "\<forall>loc. geocode e (src ip) \<noteq> Returns (Some loc)"
    using that
    by (auto simp: built_info_def geolocate_def split: outcome.splits option.splits prod.splits)
  have go_on: "process_packet_body e self packet =
      (case check_alerts ?s ?info of
         (Raises ex', self') \<Rightarrow> (Raises ex', self')
       | (Returns u, self') \<Rightarrow> (Returns (), append_record self' ?info))"
    if "\<forall>loc. geocode e (src ip) \<noteq> Returns (Some loc)"
    using process_packet_body_Some [OF ip, of e self] unfolding same [OF that] .
  have f: "process_packet e self packet =
            (Returns (),
             append_record
               (?s\<lparr>st_warnings := st_warnings self @ expected_notifications (alerts self) ?info\<rparr>)
               ?info)
          \<and> last (packet_data (snd (process_packet e self packet))) = ?info
          \<and> packet_count (snd (process_packet e self packet)) = packet_count self + 1"
    if nogeo: "\<forall>loc. geocode e (src ip) \<noteq> Returns (Some loc)"
      and ret: "\<forall>(c, m) \<in> set (alerts self). \<exists>b. c ?info = Returns b"
  proof -
    have "check_alerts ?s ?info =
        (Returns (), ?s\<lparr>st_warnings := st_warnings self @ expected_notifications (alerts self) ?info\<rparr>)"
      using check_alerts_loop_returns [of "alerts self" ?info ?s] ret
      by (simp add: check_alerts_def geolocated_state_frame)
    with process_packet_returns [OF ip, of e self "()"] same [OF nogeo]
    have "process_packet e self packet =
            (Returns (),
             append_record
               (?s\<lparr>st_warnings := st_warnings self @ expected_notifications (alerts self) ?info\<rparr>)
               ?info)"
      by simp
    then show ?thesis
      by (simp add: last_append_record packet_count_append_record geolocated_state_frame)
  qed
  from a b c d same go_on f show ?thesis by blast
qed

text \<open>
  A lookup that times out, with the rule of \<^verbatim>\<open>main\<close> registered and the sample TCP packet:
  one log entry, no latitude, the warning shown, and the unchanged record appended and
  counted.
\<close>

theorem geolocation_failure_keeps_record_witness:
  "IP tcp_packet = Some (sample_ip 6)
   \<and> geocode env_timeout (src (sample_ip 6)) = Raises (GeopyError ''Service timed out'')
   \<and> large_tcp (add_transport tcp_packet
        (new_packet_info env_timeout main_rule tcp_packet (sample_ip 6))) = Returns True
   \<and> geolocate env_timeout (sample_ip 6) (synthetic_record 7) main_rule =
       (synthetic_record 7,
        main_rule\<lparr>logged := [''Error in geolocation: Service timed out'']\<rparr>)
   \<and> latitude (built_info env_timeout main_rule tcp_packet (sample_ip 6)) = None
   \<and> fst (process_packet env_timeout main_rule tcp_packet) = Returns ()
   \<and> packet_data (snd (process_packet env_timeout main_rule tcp_packet)) =
       [add_transport tcp_packet (new_packet_info env_timeout main_rule tcp_packet (sample_ip 6))]
   \<and> packet_count (snd (process_packet env_timeout main_rule tcp_packet)) = 1
   \<and> st_warnings (snd (process_packet env_timeout main_rule tcp_packet)) =
       [''Alert: Large TCP packet detected'']
   \<and> logged (snd (process_packet env_timeout main_rule tcp_packet)) =
       [''Error in geolocation: Service timed out'']"
proof -
  let ?info = "add_transport tcp_packet (new_packet_info env_timeout main_rule tcp_packet (sample_ip 6))"
  let ?s = "geolocated_state env_timeout main_rule tcp_packet (sample_ip 6)"
  have ip: "IP tcp_packet = Some (sample_ip 6)" by (simp add: tcp_packet_def)
  have g: "geocode env_timeout (src (sample_ip 6)) = Raises (GeopyError ''Service timed out'')"
    by (simp add: env_timeout_def geocode_timeout_def)
  then have nogeo: "\<forall>loc. geocode env_timeout (src (sample_ip 6)) \<noteq> Returns (Some loc)"
    by simp
  have rules: "alerts main_rule = [(large_tcp, ''Large TCP packet detected'')]"
    by (simp add: main_rule_def add_alert_def PacketProcessor_init_def)
  have large: "large_tcp ?info = Returns True"
    by (simp add: large_tcp_def add_transport_def new_packet_info_def tcp_packet_def
        sample_ip_def get_protocol_name_def main_rule_def add_alert_def PacketProcessor_init_def)
  then have ret: "\<forall>(c, m) \<in> set (alerts main_rule). \<exists>b. c ?info = Returns b"
    by (auto simp: rules)
  have start: "logged main_rule = []" "st_warnings main_rule = []"
    "packet_data main_rule = []" "packet_count main_rule = 0"
    by (simp_all add: main_rule_def add_alert_def PacketProcessor_init_def)
  have shown: "expected_notifications (alerts main_rule) ?info =
      [''Alert: Large TCP packet detected'']"
    by (simp add: rules expected_notifications_def large)
  have state: "?s = main_rule\<lparr>logged := [''Error in geolocation: Service timed out'']\<rparr>"
    by (simp add: geolocated_state_def geolocate_def g start)
  from geolocation_failure_keeps_record [OF ip, of env_timeout "GeopyError ''Service timed out''"
      "synthetic_record 7" main_rule]
    ip g nogeo ret large start shown state
  show ?thesis
    by (simp add: packet_data_append_record packet_count_append_record append_record_frame
        fresh_info_no_place)
qed

text \<open>
  C8, as stated, fails on a rule list with a condition that raises: with \<open>two_rules\<close> the
  second rule holds of the record, so one warning is expected, and \<^verbatim>\<open>check_alerts\<close> raises
  and shows none.
\<close>

theorem check_alerts_stops_at_raise:
  "check_alerts two_rules (synthetic_record 1) = (Raises (Exception ''boom''), two_rules)
   \<and> expected_notifications (alerts two_rules) (synthetic_record 1) = [''Alert: second'']"
  by (simp add: check_alerts_def two_rules_def add_alert_def PacketProcessor_init_def
      always_raises_def always_holds_def expected_notifications_def)

text \<open>
  C8, amended. When every registered condition returns on the record, \<^verbatim>\<open>check_alerts\<close>
  returns and shows, after the warnings already there, exactly one warning for each rule
  whose condition holds, in the order of registration. With the one rule
  \<open>large_tcp\<close> registered it shows one warning for a TCP record of more than 1000 bytes and
  none for any other record. The record is not changed: the one appended by
  \<^verbatim>\<open>process_packet\<close> is the one the conditions were given.
\<close>

theorem check_alerts_one_per_match:
  "(\<forall>(c, m) \<in> set (alerts self). \<exists>b. c info = Returns b) \<Longrightarrow>
   check_alerts self info =
     (Returns (), self\<lparr>st_warnings := st_warnings self @ expected_notifications (alerts self) info\<rparr>)
   \<and> length (expected_notifications (alerts self) info) =
       length (filter (\<lambda>(c, m). c info = Returns True) (alerts self))
   \<and> check_alerts (self\<lparr>alerts := [(large_tcp, msg)]\<rparr>) info =
       (Returns (),
        self\<lparr>alerts := [(large_tcp, msg)],
             st_warnings := st_warnings self @
               (if protocol info = ''TCP'' \<and> 1000 < pkt_size info then [''Alert: '' @ msg] else [])\<rparr>)
   \<and> (\<forall>e packet ip. IP packet = Some ip \<and> info = built_info e self packet ip \<longrightarrow>
        last (packet_data (snd (process_packet e self packet))) = info)"
proof -
  assume ret: "\<forall>(c, m) \<in> set (alerts self). \<exists>b. c info = Returns b"
  have a: "check_alerts self info =
     (Returns (), self\<lparr>st_warnings := st_warnings self @ expected_notifications (alerts self) info\<rparr>)"
    using ret check_alerts_loop_returns [where rules = "alerts self" and info = info and self = self]
    by (simp add: check_alerts_def)
  have b: "length (expected_notifications (alerts self) info) =
       length (filter (\<lambda>(c, m). c info = Returns True) (alerts self))"
    by (simp add: expected_notifications_def)
  have c: "check_alerts (self\<lparr>alerts := [(large_tcp, msg)]\<rparr>) info =
       (Returns (),
        self\<lparr>alerts := [(large_tcp, msg)],
             st_warnings := st_warnings self @
               (if protocol info = ''TCP'' \<and> 1000 < pkt_size info then [''Alert: '' @ msg] else [])\<rparr>)"
    by (simp add: check_alerts_def large_tcp_def)
  have d: "last (packet_data (snd (process_packet e self packet))) = info"
    if ip: "IP packet = Some ip" and info: "info = built_info e self packet ip" for e packet ip
  proof -
    let ?s = "geolocated_state e self packet ip"
    have "\<forall>(c, m) \<in> set (alerts ?s). \<exists>b. c info = Returns b"
      using ret by (simp add: geolocated_state_frame)
    with check_alerts_loop_returns [where rules = "alerts ?s" and info = info and self = ?s]
    have "check_alerts ?s (built_info e self packet ip) =
            (Returns (), ?s\<lparr>st_warnings := st_warnings ?s @ expected_notifications (alerts ?s) info\<rparr>)"
      by (simp add: check_alerts_def info)
    from process_packet_returns [OF ip this] show ?thesis
      by (simp add: last_append_record info)
  qed
  from a b c d show ?thesis by blast
qed

text \<open>Two rules that both hold of the sample TCP packet's record: two warnings, in order.\<close>

theorem check_alerts_one_per_match_witness:
  "check_alerts (add_alert (add_alert (PacketProcessor_init 0) large_tcp ''Large TCP packet detected'')
       always_holds ''second'')
     (built_info env_place (PacketProcessor_init 0) tcp_packet (sample_ip 6)) =
   (Returns (),
    (add_alert (add_alert (PacketProcessor_init 0) large_tcp ''Large TCP packet detected'')
       always_holds ''second'')
      \<lparr>st_warnings := [''Alert: Large TCP packet detected'', ''Alert: second'']\<rparr>)"
proof -
  let ?self = "add_alert (add_alert (PacketProcessor_init 0) large_tcp ''Large TCP packet detected'')
       always_holds ''second''"
  let ?info = "built_info env_place (PacketProcessor_init 0) tcp_packet (sample_ip 6)"
  have rules: "alerts ?self = [(large_tcp, ''Large TCP packet detected''), (always_holds, ''second'')]"
    by (simp add: add_alert_def PacketProcessor_init_def)
  have ret: "\<forall>(c, m) \<in> set (alerts ?self). \<exists>b. c ?info = Returns b"
    by (auto simp: rules large_tcp_def always_holds_def)
  have info: "protocol ?info = ''TCP''" "pkt_size ?info = 1500"
    by (simp_all add: built_info_def geolocate_def env_place_def geocode_place_def
        add_transport_def new_packet_info_def tcp_packet_def sample_ip_def
        get_protocol_name_def PacketProcessor_init_def)
  have w: "st_warnings ?self = []" by (simp add: add_alert_def PacketProcessor_init_def)
  have "expected_notifications (alerts ?self) ?info =
          [''Alert: Large TCP packet detected'', ''Alert: second'']"
    by (simp add: rules expected_notifications_def large_tcp_def always_holds_def info)
  with check_alerts_one_per_match [OF ret] w show ?thesis by simp
qed

text \<open>
  C9, as stated, fails. A condition that raises \<^verbatim>\<open>SystemExit\<close>, which is not an instance of
  \<^verbatim>\<open>Exception\<close>, is not caught by the handler: \<^verbatim>\<open>process_packet\<close> raises it to its caller
  and logs nothing. A condition whose exception has a \<^verbatim>\<open>__str__\<close> that raises is caught,
  and the handler itself then raises while it builds the log message.
\<close>

theorem process_packet_lets_exceptions_through:
  "process_packet env_nothing (add_alert (PacketProcessor_init 0) exits ''quit'') tcp_packet =
     (Raises (BaseOnly ''SystemExit''), add_alert (PacketProcessor_init 0) exits ''quit'')
   \<and> process_packet env_nothing (add_alert (PacketProcessor_init 0) raises_unprintable ''odd'')
       tcp_packet =
     (Raises (Exception ''no text''),
      add_alert (PacketProcessor_init 0) raises_unprintable ''odd'')"
  by (simp add: process_packet_def process_packet_body_def except_log_def tcp_packet_def
      add_alert_def PacketProcessor_init_def env_nothing_def geocode_nothing_def
      geolocate_def check_alerts_def exits_def raises_unprintable_def Let_def)

text \<open>
  C9, amended. The handler turns every outcome of the body of the \<^verbatim>\<open>try\<close> into a normal
  return when the exception raised there, if any, is an instance of \<^verbatim>\<open>Exception\<close> whose
  text can be taken. So for every packet, every state and every answer of the geocoder,
  when each exception a registered condition raises on the record is of that kind,
  \<^verbatim>\<open>process_packet\<close> returns, and an exception raised in the body is logged.
\<close>

theorem process_packet_contains_exceptions:
  "(\<forall>(c, m) \<in> set (alerts self).
      \<forall>ip ex. IP packet = Some ip \<and> c (built_info e self packet ip) = Raises ex \<longrightarrow>
        is_Exception ex \<and> (\<exists>msg. str_exn ex = Returns msg)) \<Longrightarrow>
   ((\<forall>ex. r = Raises ex \<longrightarrow> is_Exception ex \<and> (\<exists>msg. str_exn ex = Returns msg)) \<longrightarrow>
      fst (except_log (r, s)) = Returns ())
   \<and> fst (process_packet e self packet) = Returns ()
   \<and> (\<forall>ex self' msg.
        process_packet_body e self packet = (Raises ex, self') \<and> str_exn ex = Returns msg \<longrightarrow>
        process_packet e self packet =
          (Returns (),
           self'\<lparr>logged := logged self' @ [''Error processing packet: '' @ msg]\<rparr>))"
proof -
  assume printable: "\<forall>(c, m) \<in> set (alerts self).
      \<forall>ip ex. IP packet = Some ip \<and> c (built_info e self packet ip) = Raises ex \<longrightarrow>
        is_Exception ex \<and> (\<exists>msg. str_exn ex = Returns msg)"
  have caught: "fst (except_log (r', s')) = Returns ()"
    if "\<forall>ex. r' = Raises ex \<longrightarrow> is_Exception ex \<and> (\<exists>msg. str_exn ex = Returns msg)"
    for r' s'
  proof (cases r')
    case (Returns u)
    then show ?thesis by (cases u) (simp add: except_log_def)
  next
    case (Raises ex)
    with that obtain msg where "is_Exception ex" "str_exn ex = Returns msg" by auto
    with Raises show ?thesis by (simp add: except_log_printed)
  qed
  have body: "is_Exception ex \<and> (\<exists>msg. str_exn ex = Returns msg)"
    if raised: "process_packet_body e self packet = (Raises ex, self')" for ex self'
  proof (cases "IP packet")
    case None
    with raised show ?thesis by (simp add: process_packet_body_None)
  next
    case (Some ip)
    let ?s = "geolocated_state e self packet ip"
    let ?info = "built_info e self packet ip"
    obtain r' s' where c: "check_alerts ?s ?info = (r', s')"
      by (cases "check_alerts ?s ?info")
    with raised Some have "r' = Raises ex"
      by (cases r') (simp_all add: process_packet_body_Some)
    with c have "check_alerts_loop (alerts self) ?info ?s = (Raises ex, s')"
      by (simp add: check_alerts_def geolocated_state_frame)
    from check_alerts_loop_raised_by [OF this]
    obtain c' m' where "(c', m') \<in> set (alerts self)" "c' ?info = Raises ex" by auto
    with printable Some show ?thesis by auto
  qed
  have returns: "fst (process_packet e self packet) = Returns ()"
  proof -
    obtain r' s' where b: "process_packet_body e self packet = (r', s')"
      by (cases "process_packet_body e self packet")
    have "\<forall>ex. r' = Raises ex \<longrightarrow> is_Exception ex \<and> (\<exists>msg. str_exn ex = Returns msg)"
      using body b by auto
    from caught [OF this, of s'] b show ?thesis by (simp add: process_packet_def)
  qed
  have logs: "process_packet e self packet =
      (Returns (), self'\<lparr>logged := logged self' @ [''Error processing packet: '' @ msg]\<rparr>)"
    if "process_packet_body e self packet = (Raises ex, self')" and "str_exn ex = Returns msg"
    for ex self' msg
    using that body [OF that(1)] by (simp add: process_packet_def except_log_printed)
  from caught [of r s] returns logs show ?thesis by blast
qed

text \<open>A geocoder that times out and a condition that raises: two log entries, no exception.\<close>

theorem process_packet_contains_exceptions_witness:
  "is_Exception (Exception ''boom'') \<and> str_exn (Exception ''boom'') = Returns ''boom''
   \<and> process_packet_body env_timeout two_rules tcp_packet =
     (Raises (Exception ''boom''),
      two_rules\<lparr>logged := [''Error in geolocation: Service timed out'']\<rparr>)
   \<and> process_packet env_timeout two_rules tcp_packet =
     (Returns (),
      two_rules\<lparr>logged := [''Error in geolocation: Service timed out'',
                             ''Error processing packet: boom'']\<rparr>)"
proof -
  have rules: "alerts two_rules = [(always_raises, ''first''), (always_holds, ''second'')]"
    by (simp add: two_rules_def add_alert_def PacketProcessor_init_def)
  have printable: "\<forall>(c, m) \<in> set (alerts two_rules).
      \<forall>ip ex. IP tcp_packet = Some ip
          \<and> c (built_info env_timeout two_rules tcp_packet ip) = Raises ex \<longrightarrow>
        is_Exception ex \<and> (\<exists>msg. str_exn ex = Returns msg)"
    by (auto simp: rules always_raises_def always_holds_def)
  have body: "process_packet_body env_timeout two_rules tcp_packet =
     (Raises (Exception ''boom''),
      two_rules\<lparr>logged := [''Error in geolocation: Service timed out'']\<rparr>)"
    by (simp add: process_packet_body_def tcp_packet_def two_rules_def add_alert_def
        PacketProcessor_init_def env_timeout_def geocode_timeout_def geolocate_def
        check_alerts_def always_raises_def Let_def)
  have "logged two_rules = []"
    by (simp add: two_rules_def add_alert_def PacketProcessor_init_def)
  with body process_packet_contains_exceptions [OF printable]
  show ?thesis by simp
qed

text \<open>
  C10. Every call of \<^verbatim>\<open>process_packet\<close> either leaves the retained history and the
  counter as they were, or appends the one record built for the packet (the oldest record
  leaving when the history is full) and adds one to the counter. When an alert condition
  raises, after the record is built and before the append, both are as they were.
\<close>

theorem process_packet_atomic:
  "((packet_data (snd (process_packet e self packet)) = packet_data self
      \<and> packet_count (snd (process_packet e self packet)) = packet_count self)
    \<or> (\<exists>ip. IP packet = Some ip
          \<and> packet_data (snd (process_packet e self packet)) =
              (if length (packet_data self) < 10000
               then packet_data self @ [built_info e self packet ip]
               else tl (packet_data self @ [built_info e self packet ip]))
          \<and> packet_count (snd (process_packet e self packet)) = packet_count self + 1))
   \<and> (IP packet = Some ip
        \<and> fst (check_alerts (geolocated_state e self packet ip) (built_info e self packet ip))
            = Raises ex
      \<longrightarrow> packet_data (snd (process_packet e self packet)) = packet_data self
          \<and> packet_count (snd (process_packet e self packet)) = packet_count self)"
proof -
  have raised: "packet_data (snd (process_packet e self packet)) = packet_data self
          \<and> packet_count (snd (process_packet e self packet)) = packet_count self"
    if ip: "IP packet = Some i"
      and r: "fst (check_alerts (geolocated_state e self packet i) (built_info e self packet i))
            = Raises x" for i x
  proof -
    obtain s where c: "check_alerts (geolocated_state e self packet i)
        (built_info e self packet i) = (Raises x, s)"
      using r by (cases "check_alerts (geolocated_state e self packet i)
        (built_info e self packet i)") simp
    from checked_frame [OF c] process_packet_raises [OF ip c] show ?thesis
      by (simp add: except_log_frame)
  qed
  have either: "(packet_data (snd (process_packet e self packet)) = packet_data self
      \<and> packet_count (snd (process_packet e self packet)) = packet_count self)
    \<or> (\<exists>ip. IP packet = Some ip
          \<and> packet_data (snd (process_packet e self packet)) =
              (if length (packet_data self) < 10000
               then packet_data self @ [built_info e self packet ip]
               else tl (packet_data self @ [built_info e self packet ip]))
          \<and> packet_count (snd (process_packet e self packet)) = packet_count self + 1)"
  proof (cases "IP packet")
    case None
    then show ?thesis
      by (simp add: process_packet_def process_packet_body_None except_log_def)
  next
    case (Some i)
    obtain r s where c: "check_alerts (geolocated_state e self packet i)
        (built_info e self packet i) = (r, s)"
      by (cases "check_alerts (geolocated_state e self packet i) (built_info e self packet i)")
    show ?thesis
    proof (cases r)
      case (Raises x)
      with c have "fst (check_alerts (geolocated_state e self packet i)
        (built_info e self packet i)) = Raises x" by simp
      from raised [OF Some this] show ?thesis by simp
    next
      case (Returns u)
      from checked_frame [OF c] process_packet_returns [OF Some c [unfolded Returns]] Some
      show ?thesis
        by (simp add: packet_data_append_record packet_count_append_record)
    qed
  qed
  from either raised show ?thesis by blast
qed

text \<open>With \<open>two_rules\<close> the first condition raises, and history and counter stay empty and 0.\<close>

theorem process_packet_atomic_witness:
  "IP tcp_packet = Some (sample_ip 6)
   \<and> fst (check_alerts (geolocated_state env_place two_rules tcp_packet (sample_ip 6))
        (built_info env_place two_rules tcp_packet (sample_ip 6))) = Raises (Exception ''boom'')
   \<and> packet_data (snd (process_packet env_place two_rules tcp_packet)) = []
   \<and> packet_count (snd (process_packet env_place two_rules tcp_packet)) = 0"
proof -
  have ip: "IP tcp_packet = Some (sample_ip 6)" by (simp add: tcp_packet_def)
  have r: "fst (check_alerts (geolocated_state env_place two_rules tcp_packet (sample_ip 6))
        (built_info env_place two_rules tcp_packet (sample_ip 6))) = Raises (Exception ''boom'')"
    by (simp add: check_alerts_def geolocated_state_frame two_rules_def add_alert_def
        PacketProcessor_init_def always_raises_def)
  have "packet_data two_rules = [] \<and> packet_count two_rules = 0"
    by (simp add: two_rules_def add_alert_def PacketProcessor_init_def)
  with ip r process_packet_atomic [of env_place two_rules tcp_packet "sample_ip 6"
      "Exception ''boom''"]
  show ?thesis by simp
qed

end
